theory Spec2Isabelle
  imports Main
begin

section \<open>Configuration loader (config.py)\<close>

text \<open>
  The process environment \<^verbatim>\<open>os.environ\<close> is a dictionary from variable names to
  strings. A variable that is not set has no entry; a variable can be set to the empty
  string.
\<close>

type_synonym environ = "string \<rightharpoonup> string"

text \<open>
  \<^verbatim>\<open>os.environ.get(key)\<close> returns the value of the variable, or Python's
  \<^verbatim>\<open>None\<close> when the key is missing. It never raises.
\<close>

definition environ_get :: "environ \<Rightarrow> string \<Rightarrow> string option" where
  "environ_get env key = env key"

text \<open>
  Truth value testing on an \<^verbatim>\<open>Optional[str]\<close>: \<^verbatim>\<open>None\<close> and the empty
  string are false, every other string is true.
\<close>

fun truthy :: "string option \<Rightarrow> bool" where
  "truthy None = False"
| "truthy (Some s) = (s \<noteq> [])"

text \<open>
  \<^verbatim>\<open>x or d\<close> evaluates \<^verbatim>\<open>x\<close>; when it is true the result is \<^verbatim>\<open>x\<close> itself,
  otherwise the result is \<^verbatim>\<open>d\<close>. Here \<^verbatim>\<open>d\<close> is always a string literal.
\<close>

fun py_or :: "string option \<Rightarrow> string \<Rightarrow> string" where
  "py_or None d = d"
| "py_or (Some s) d = (if truthy (Some s) then s else d)"

text \<open>The attributes of \<^verbatim>\<open>class Config\<close>.\<close>

record Config =
  SECRET_KEY :: string
  SQLALCHEMY_DATABASE_URI :: string
  SQLALCHEMY_TRACK_MODIFICATIONS :: bool

text \<open>
  The class body runs once, when the module is imported, and reads \<^verbatim>\<open>os.environ\<close>
  as it is at that moment.
\<close>

definition Config_class :: "environ \<Rightarrow> Config" where
  "Config_class env =
     \<lparr> SECRET_KEY = py_or (environ_get env ''SECRET_KEY'') ''dev-key-please-change'',
       SQLALCHEMY_DATABASE_URI =
         py_or (environ_get env ''DATABASE_URL'') ''postgresql://localhost/card_collector_db'',
       SQLALCHEMY_TRACK_MODIFICATIONS = False \<rparr>"

text \<open>
  \<^verbatim>\<open>load_dotenv()\<close> belongs to the python-dotenv package, which is not part of the
  repository. The model follows its documented behaviour: the variables defined in the
  \<^verbatim>\<open>.env\<close> file are written into \<^verbatim>\<open>os.environ\<close>; a key that is already in
  \<^verbatim>\<open>os.environ\<close> is left alone unless \<^verbatim>\<open>override\<close> is true; a key that the file
  names without a value is skipped. The parsed file is a dictionary from names to
  optional values, and the empty dictionary stands for a missing file.
\<close>

type_synonym dotenv_values = "string \<rightharpoonup> string option"

definition load_dotenv :: "bool \<Rightarrow> dotenv_values \<Rightarrow> environ \<Rightarrow> environ" where
  "load_dotenv override values env =
     (\<lambda>k. case values k of
            None \<Rightarrow> env k
          | Some None \<Rightarrow> env k
          | Some (Some v) \<Rightarrow> (if env k \<noteq> None \<and> \<not> override then env k else Some v))"

section \<open>Health reporter (app/routes/main.py)\<close>

text \<open>A JSON document, as far as the handler builds one.\<close>

datatype json = JString string | JObject "(string \<times> json) list"

record response =
  status :: nat
  mimetype :: string
  body :: json

text \<open>
  Flask's \<^verbatim>\<open>jsonify\<close> wraps the serialised argument in a response with status 200
  and the JSON media type.
\<close>

definition jsonify :: "json \<Rightarrow> response" where
  "jsonify v = \<lparr> status = 200, mimetype = ''application/json'', body = v \<rparr>"

text \<open>
  \<^verbatim>\<open>bp = Blueprint("main", __name__)\<close>, with the rules that the \<^verbatim>\<open>route\<close>
  decorator registers on it: each rule maps a path to the name of its view function.
  A rule registered without \<^verbatim>\<open>methods\<close> answers \<^verbatim>\<open>GET\<close>.
\<close>

record blueprint =
  bp_name :: string
  bp_rules :: "(string \<times> string) list"

definition bp :: blueprint where
  "bp = \<lparr> bp_name = ''main'', bp_rules = [(''/api/health-check'', ''health_check'')] \<rparr>"

section \<open>The running process\<close>

text \<open>
  The state of the process is the environment together with the module-level bindings of
  the two modules: \<^verbatim>\<open>basedir\<close> and \<^verbatim>\<open>Config\<close> of config.py, \<^verbatim>\<open>bp\<close> of
  main.py.
\<close>

record process =
  os_environ :: environ
  basedir :: string
  config :: Config
  blueprints :: blueprint

text \<open>
  Importing config.py: \<^verbatim>\<open>basedir\<close> is the absolute directory of the module file
  (a parameter here), \<^verbatim>\<open>load_dotenv()\<close> is called with its defaults, hence without
  override, and the class body then reads the updated environment.
\<close>

definition startup :: "string \<Rightarrow> dotenv_values \<Rightarrow> environ \<Rightarrow> process" where
  "startup here values env =
     (let env' = load_dotenv False values env
      in \<lparr> os_environ = env', basedir = here, config = Config_class env',
           blueprints = bp \<rparr>)"

text \<open>
  The view function takes no argument and reads nothing; as a state transformer it
  returns its response and the state it was given.
\<close>

definition health_check :: "process \<Rightarrow> response \<times> process" where
  "health_check st = (jsonify (JObject [(''status'', JString ''healthy'')]), st)"

record request =
  http_method :: string
  path :: string

text \<open>
  Dispatching a request: the rule for the path is looked up in the blueprint and its
  view function is called. \<^verbatim>\<open>None\<close> stands for a request that no rule of the
  blueprint serves with \<^verbatim>\<open>GET\<close>; what Flask answers then is not modelled.
\<close>

definition dispatch_request :: "process \<Rightarrow> request \<Rightarrow> response option \<times> process" where
  "dispatch_request st req =
     (if http_method req = ''GET''
        \<and> map_of (bp_rules (blueprints st)) (path req) = Some ''health_check''
      then (case health_check st of (r, st') \<Rightarrow> (Some r, st'))
      else (None, st))"

text \<open>
  What happens to a process after startup: a request arrives, or something sets or
  unsets an environment variable of the process.
\<close>

datatype event = Request request | Setenv string string | Unsetenv string

fun step :: "process \<Rightarrow> event \<Rightarrow> response option \<times> process" where
  "step st (Request req) = dispatch_request st req"
| "step st (Setenv k v) = (None, st\<lparr> os_environ := (os_environ st)(k \<mapsto> v) \<rparr>)"
| "step st (Unsetenv k) = (None, st\<lparr> os_environ := (os_environ st)(k := None) \<rparr>)"

fun run :: "process \<Rightarrow> event list \<Rightarrow> response option list \<times> process" where
  "run st [] = ([], st)"
| "run st (e # es) =
     (case step st e of (r, st') \<Rightarrow>
        (case run st' es of (rs, st'') \<Rightarrow> (r # rs, st'')))"

text \<open>The request that \<^verbatim>\<open>GET /api/health-check\<close> stands for.\<close>

definition health_request :: request where
  "health_request = \<lparr> http_method = ''GET'', path = ''/api/health-check'' \<rparr>"

section \<open>Auxiliary facts\<close>

lemma load_dotenv_keeps:
  "env k = Some v \<Longrightarrow> load_dotenv False vals env k = Some v"
  by (simp add: load_dotenv_def split: option.splits)

lemma load_dotenv_no_file: "load_dotenv override Map.empty env = env"
  by (simp add: load_dotenv_def)

lemma config_startup: "config (startup here vals env) = Config_class (load_dotenv False vals env)"
  by (simp add: startup_def Let_def)

lemma blueprints_startup: "blueprints (startup here vals env) = bp"
  by (simp add: startup_def Let_def)

lemma health_check_state: "snd (health_check st) = st"
  by (simp add: health_check_def)

lemma dispatch_request_state: "snd (dispatch_request st req) = st"
  by (simp add: dispatch_request_def health_check_def)

lemma step_config: "config (snd (step st e)) = config st"
  by (cases e) (simp_all add: dispatch_request_state)

lemma step_blueprints: "blueprints (snd (step st e)) = blueprints st"
  by (cases e) (simp_all add: dispatch_request_state)

lemma run_Cons_snd: "snd (run st (e # es)) = snd (run (snd (step st e)) es)"
  by (simp split: prod.splits)

lemma run_Cons_fst: "fst (run st (e # es)) = fst (step st e) # fst (run (snd (step st e)) es)"
  by (simp split: prod.splits)

lemma run_config: "config (snd (run st evs)) = config st"
proof (induction evs arbitrary: st)
  case Nil
  show ?case by simp
next
  case (Cons e es)
  have "config (snd (run (snd (step st e)) es)) = config (snd (step st e))"
    by (rule Cons.IH)
  then show ?case
    by (simp only: run_Cons_snd step_config)
qed

lemma run_blueprints: "blueprints (snd (run st evs)) = blueprints st"
proof (induction evs arbitrary: st)
  case Nil
  show ?case by simp
next
  case (Cons e es)
  have "blueprints (snd (run (snd (step st e)) es)) = blueprints (snd (step st e))"
    by (rule Cons.IH)
  then show ?case
    by (simp only: run_Cons_snd step_blueprints)
qed

lemma run_requests_state: "snd (run st (map Request reqs)) = st"
proof (induction reqs)
  case Nil
  show ?case by simp
next
  case (Cons r rs)
  have "snd (step st (Request r)) = st"
    by (simp add: dispatch_request_state)
  with Cons show ?case
    by (simp only: list.map run_Cons_snd)
qed

lemma run_nth:
  "i < length evs \<Longrightarrow> fst (run st evs) ! i = fst (step (snd (run st (take i evs))) (evs ! i))"
proof (induction evs arbitrary: st i)
  case Nil
  then show ?case by simp
next
  case (Cons e es)
  show ?case
  proof (cases i)
    case 0
    then show ?thesis by (simp add: run_Cons_fst del: run.simps(2))
  next
    case (Suc n)
    with Cons.prems have "n < length es" by simp
    from Cons.IH [OF this, of "snd (step st e)"] Suc show ?thesis
      by (simp add: run_Cons_fst run_Cons_snd del: run.simps(2))
  qed
qed

lemma dispatch_health_request:
  "blueprints st = bp \<Longrightarrow>
   fst (dispatch_request st health_request) =
     Some \<lparr> status = 200, mimetype = ''application/json'',
            body = JObject [(''status'', JString ''healthy'')] \<rparr>"
  by (simp add: dispatch_request_def health_request_def bp_def health_check_def jsonify_def)


lemma run_health_requests:
  "blueprints st = bp \<Longrightarrow>
   fst (run st (replicate n (Request health_request))) =
     replicate n (Some \<lparr> status = 200, mimetype = ''application/json'',
            body = JObject [(''status'', JString ''healthy'')] \<rparr>)"
proof (induction n)
  case 0
  show ?case by simp
next
  case (Suc n)
  have kept: "snd (step st (Request health_request)) = st"
    by (simp add: dispatch_request_state)
  have first: "fst (step st (Request health_request)) =
      Some \<lparr> status = 200, mimetype = ''application/json'',
             body = JObject [(''status'', JString ''healthy'')] \<rparr>"
    using Suc.prems by (simp add: dispatch_health_request)
  from Suc.IH [OF Suc.prems] show ?case
    by (simp only: replicate_Suc run_Cons_fst kept first)
qed

section \<open>The health check\<close>

text \<open>
  Claim C1. Every call of the view function answers with status 200 and the JSON object
  whose only member is \<^verbatim>\<open>"status": "healthy"\<close>; and whatever has happened to the
  process since startup, the request \<^verbatim>\<open>GET /api/health-check\<close> is dispatched to the
  view function and gets exactly that response.
\<close>

theorem health_check_healthy:
  "status (fst (health_check st)) = 200
   \<and> body (fst (health_check st)) = JObject [(''status'', JString ''healthy'')]
   \<and> fst (dispatch_request (snd (run (startup here vals env) evs)) health_request) =
       Some \<lparr> status = 200, mimetype = ''application/json'',
              body = JObject [(''status'', JString ''healthy'')] \<rparr>"
proof -
  have "blueprints (snd (run (startup here vals env) evs)) = bp"
    by (simp only: run_blueprints blueprints_startup)
  then show ?thesis
    by (simp add: dispatch_health_request) (simp add: health_check_def jsonify_def)
qed

section \<open>Resolution of the settings\<close>

text \<open>
  Claim C2. For every environment that the class body reads, each of the two settings is
  the value of its variable when the variable is present and not empty, and the literal
  default otherwise. In particular, in any environment with \<^verbatim>\<open>SECRET_KEY=abc123\<close>
  and \<^verbatim>\<open>DATABASE_URL=postgresql://example/test\<close> the settings are these two values.
\<close>

theorem config_resolution_policy:
  "SECRET_KEY (Config_class env) =
     (if ''SECRET_KEY'' \<in> dom env \<and> the (env ''SECRET_KEY'') \<noteq> []
      then the (env ''SECRET_KEY'') else ''dev-key-please-change'')
   \<and> SQLALCHEMY_DATABASE_URI (Config_class env) =
     (if ''DATABASE_URL'' \<in> dom env \<and> the (env ''DATABASE_URL'') \<noteq> []
      then the (env ''DATABASE_URL'') else ''postgresql://localhost/card_collector_db'')
   \<and> SECRET_KEY (Config_class
         (env(''SECRET_KEY'' \<mapsto> ''abc123'', ''DATABASE_URL'' \<mapsto> ''postgresql://example/test'')))
       = ''abc123''
   \<and> SQLALCHEMY_DATABASE_URI (Config_class
         (env(''SECRET_KEY'' \<mapsto> ''abc123'', ''DATABASE_URL'' \<mapsto> ''postgresql://example/test'')))
       = ''postgresql://example/test''"
proof -
  have key: "py_or (environ_get e k) d = (if k \<in> dom e \<and> the (e k) \<noteq> [] then the (e k) else d)"
    for e :: environ and k d
    by (cases "e k") (auto simp: environ_get_def)
  show ?thesis
    by (simp add: Config_class_def key)
qed

text \<open>
  Claim C3. When neither variable is in the environment, the secret key and the database
  URI are the two literal defaults; this holds for the environment the class body reads
  and for a process started without a \<^verbatim>\<open>.env\<close> file.
\<close>

theorem config_default_fallback:
  assumes "env ''SECRET_KEY'' = None" and "env ''DATABASE_URL'' = None"
  shows "SECRET_KEY (Config_class env) = ''dev-key-please-change''
         \<and> SQLALCHEMY_DATABASE_URI (Config_class env) = ''postgresql://localhost/card_collector_db''
         \<and> SECRET_KEY (config (startup here Map.empty env)) = ''dev-key-please-change''
         \<and> SQLALCHEMY_DATABASE_URI (config (startup here Map.empty env))
             = ''postgresql://localhost/card_collector_db''"
  using assms
  by (simp add: config_startup load_dotenv_no_file Config_class_def environ_get_def)

theorem config_default_fallback_witness:
  "SECRET_KEY (Config_class Map.empty) = ''dev-key-please-change''
   \<and> SQLALCHEMY_DATABASE_URI (Config_class Map.empty) = ''postgresql://localhost/card_collector_db''
   \<and> SECRET_KEY (config (startup ''/srv/app'' Map.empty Map.empty)) = ''dev-key-please-change''
   \<and> SQLALCHEMY_DATABASE_URI (config (startup ''/srv/app'' Map.empty Map.empty))
       = ''postgresql://localhost/card_collector_db''"
  using config_default_fallback [of Map.empty "''/srv/app''"] by simp

text \<open>
  Claim C4. When \<^verbatim>\<open>SECRET_KEY\<close> is set to the empty string, the secret key is the
  default and not the empty string. At startup this holds whatever the \<^verbatim>\<open>.env\<close>
  file defines, since the variable is in the environment and is not overridden.
\<close>

theorem empty_secret_key_is_unset:
  assumes "env ''SECRET_KEY'' = Some []"
  shows "SECRET_KEY (Config_class env) = ''dev-key-please-change''
         \<and> SECRET_KEY (Config_class env) \<noteq> []
         \<and> SECRET_KEY (config (startup here vals env)) = ''dev-key-please-change''"
proof -
  have "load_dotenv False vals env ''SECRET_KEY'' = Some []"
    using assms by (rule load_dotenv_keeps)
  with assms show ?thesis
    by (simp add: config_startup Config_class_def environ_get_def)
qed

theorem empty_secret_key_is_unset_witness:
  "[''SECRET_KEY'' \<mapsto> []] ''SECRET_KEY'' = Some []
   \<and> SECRET_KEY (Config_class [''SECRET_KEY'' \<mapsto> []]) = ''dev-key-please-change''
   \<and> SECRET_KEY (Config_class [''SECRET_KEY'' \<mapsto> []]) \<noteq> []
   \<and> SECRET_KEY (config (startup ''/srv/app'' [''SECRET_KEY'' \<mapsto> Some ''from-file'']
         [''SECRET_KEY'' \<mapsto> []])) = ''dev-key-please-change''"
  using empty_secret_key_is_unset
    [of "[''SECRET_KEY'' \<mapsto> []]" "''/srv/app''" "[''SECRET_KEY'' \<mapsto> Some ''from-file'']"]
  by simp

text \<open>
  Claim C5. The class body calls only \<^verbatim>\<open>os.environ.get\<close> and \<^verbatim>\<open>or\<close>, neither of
  which raises, so its model is a total function without an error result. For every
  environment it yields a snapshot whose two settings are non-empty strings; removing a
  variable selects the default of its setting; and the snapshot depends on the environment
  through the two variables only.
\<close>

theorem config_resolution_total:
  "(\<exists>s d. Config_class env =
       \<lparr> SECRET_KEY = s, SQLALCHEMY_DATABASE_URI = d, SQLALCHEMY_TRACK_MODIFICATIONS = False \<rparr>
       \<and> s \<noteq> [] \<and> d \<noteq> [])
   \<and> SECRET_KEY (Config_class (env(''SECRET_KEY'' := None))) = ''dev-key-please-change''
   \<and> SQLALCHEMY_DATABASE_URI (Config_class (env(''DATABASE_URL'' := None)))
       = ''postgresql://localhost/card_collector_db''
   \<and> Config_class env = Config_class (env |` {''SECRET_KEY'', ''DATABASE_URL''})"
proof -
  have nonempty: "d \<noteq> [] \<Longrightarrow> py_or x d \<noteq> []" for x d
    by (cases x) auto
  have "SECRET_KEY (Config_class env) \<noteq> []"
    and "SQLALCHEMY_DATABASE_URI (Config_class env) \<noteq> []"
    by (simp_all add: Config_class_def nonempty)
  moreover have "Config_class env =
      \<lparr> SECRET_KEY = SECRET_KEY (Config_class env),
        SQLALCHEMY_DATABASE_URI = SQLALCHEMY_DATABASE_URI (Config_class env),
        SQLALCHEMY_TRACK_MODIFICATIONS = False \<rparr>"
    by (simp add: Config_class_def)
  ultimately have first: "\<exists>s d. Config_class env =
       \<lparr> SECRET_KEY = s, SQLALCHEMY_DATABASE_URI = d, SQLALCHEMY_TRACK_MODIFICATIONS = False \<rparr>
       \<and> s \<noteq> [] \<and> d \<noteq> []"
    by blast
  have rest: "SECRET_KEY (Config_class (env(''SECRET_KEY'' := None))) = ''dev-key-please-change''
      \<and> SQLALCHEMY_DATABASE_URI (Config_class (env(''DATABASE_URL'' := None)))
          = ''postgresql://localhost/card_collector_db''
      \<and> Config_class env = Config_class (env |` {''SECRET_KEY'', ''DATABASE_URL''})"
    by (simp add: Config_class_def environ_get_def)
  from first rest show ?thesis by blast
qed

section \<open>The health check over the lifetime of the process\<close>

text \<open>
  Claim C6. In any sequence of events after startup, any two health-check requests get
  the same response, however many requests or changes of the environment came before
  either of them: each of them is answered, with the status-200 response whose body is the
  \<^verbatim>\<open>healthy\<close> object, so the two responses are equal and have equal bytes under
  any serialisation \<open>wire\<close>. In particular \<open>n\<close> requests in a row get \<open>n\<close>
  copies of that response.
\<close>

theorem health_check_idempotent:
  assumes "i < length evs" and "j < length evs"
    and "evs ! i = Request health_request" and "evs ! j = Request health_request"
  shows "fst (run (startup here vals env) evs) ! i =
           Some \<lparr> status = 200, mimetype = ''application/json'',
                  body = JObject [(''status'', JString ''healthy'')] \<rparr>
         \<and> fst (run (startup here vals env) evs) ! j =
           Some \<lparr> status = 200, mimetype = ''application/json'',
                  body = JObject [(''status'', JString ''healthy'')] \<rparr>
         \<and> fst (run (startup here vals env) evs) ! i = fst (run (startup here vals env) evs) ! j
         \<and> map_option wire (fst (run (startup here vals env) evs) ! i)
             = map_option wire (fst (run (startup here vals env) evs) ! j)
         \<and> fst (run (startup here vals env) (replicate n (Request health_request))) =
           replicate n (Some \<lparr> status = 200, mimetype = ''application/json'',
                  body = JObject [(''status'', JString ''healthy'')] \<rparr>)"
proof -
  have served: "fst (run (startup here vals env) evs) ! m =
      Some \<lparr> status = 200, mimetype = ''application/json'',
             body = JObject [(''status'', JString ''healthy'')] \<rparr>"
    if "m < length evs" and "evs ! m = Request health_request" for m
  proof -
    have "blueprints (snd (run (startup here vals env) (take m evs))) = bp"
      by (simp only: run_blueprints blueprints_startup)
    then show ?thesis
      using that by (simp add: run_nth dispatch_health_request)
  qed
  have at_i: "fst (run (startup here vals env) evs) ! i =
      Some \<lparr> status = 200, mimetype = ''application/json'',
             body = JObject [(''status'', JString ''healthy'')] \<rparr>"
    using assms(1,3) by (rule served)
  have at_j: "fst (run (startup here vals env) evs) ! j =
      Some \<lparr> status = 200, mimetype = ''application/json'',
             body = JObject [(''status'', JString ''healthy'')] \<rparr>"
    using assms(2,4) by (rule served)
  have repeated: "fst (run (startup here vals env) (replicate n (Request health_request))) =
      replicate n (Some \<lparr> status = 200, mimetype = ''application/json'',
             body = JObject [(''status'', JString ''healthy'')] \<rparr>)"
    by (rule run_health_requests) (rule blueprints_startup)
  from at_i at_j repeated show ?thesis
    by simp
qed

theorem health_check_idempotent_witness:
  "fst (run (startup ''/srv/app'' Map.empty Map.empty)
          [Request health_request, Setenv ''SECRET_KEY'' ''rotated'', Request health_request]) ! 0
     = Some \<lparr> status = 200, mimetype = ''application/json'',
              body = JObject [(''status'', JString ''healthy'')] \<rparr>
   \<and> fst (run (startup ''/srv/app'' Map.empty Map.empty)
          [Request health_request, Setenv ''SECRET_KEY'' ''rotated'', Request health_request]) ! 2
     = Some \<lparr> status = 200, mimetype = ''application/json'',
              body = JObject [(''status'', JString ''healthy'')] \<rparr>
   \<and> fst (run (startup ''/srv/app'' Map.empty Map.empty)
          (replicate 3 (Request health_request)))
     = replicate 3 (Some \<lparr> status = 200, mimetype = ''application/json'',
              body = JObject [(''status'', JString ''healthy'')] \<rparr>)"
  using health_check_idempotent
    [of 0 "[Request health_request, Setenv ''SECRET_KEY'' ''rotated'', Request health_request]" 2
        "''/srv/app''" Map.empty Map.empty id 3]
  by simp

text \<open>
  Claim C7. The view function returns the state it was given: environment, base
  directory, configuration snapshot and blueprint are all unchanged, also when the call
  comes through the dispatcher and over any sequence of requests. It has no failing
  branch: it always returns a response with status 200.
\<close>

theorem health_check_no_side_effects:
  "snd (health_check st) = st
   \<and> snd (dispatch_request st req) = st
   \<and> snd (run st (map Request reqs)) = st
   \<and> status (fst (health_check st)) = 200"
  by (simp add: health_check_state dispatch_request_state run_requests_state)
     (simp add: health_check_def jsonify_def)

text \<open>
  Claim C8. The configuration snapshot read after any sequence of events, including
  changes of the environment variables, is the snapshot of the state the sequence started
  from; after startup it is the snapshot that was resolved at startup.
\<close>

theorem config_immutable:
  "config (snd (run st evs)) = config st
   \<and> config (snd (run (startup here vals env) evs)) = Config_class (load_dotenv False vals env)"
  by (simp add: run_config config_startup)

text \<open>
  Claim C9. The response of the health check is the same in any two states, and so in any
  two processes started from different environments and \<^verbatim>\<open>.env\<close> files: it does
  not depend on any configuration value.
\<close>

theorem health_check_noninterference:
  "fst (health_check st1) = fst (health_check st2)
   \<and> fst (dispatch_request (startup here1 vals1 env1) health_request)
       = fst (dispatch_request (startup here2 vals2 env2) health_request)"
  by (simp add: dispatch_health_request blueprints_startup) (simp add: health_check_def)

section \<open>Precedence between the process environment and the definitions file\<close>

text \<open>
  Claim C10 as stated fails for a variable that is set to the empty string: with
  \<^verbatim>\<open>SECRET_KEY=\<close> in the process environment and a value for it in the
  \<^verbatim>\<open>.env\<close> file, the secret key is the default, which is not the (empty) value of the
  process environment.
\<close>

theorem process_environment_precedence_counterexample:
  "[''SECRET_KEY'' \<mapsto> []] ''SECRET_KEY'' = Some []
   \<and> SECRET_KEY (config (startup ''/srv/app'' [''SECRET_KEY'' \<mapsto> Some ''from-file'']
         [''SECRET_KEY'' \<mapsto> []])) = ''dev-key-please-change''
   \<and> SECRET_KEY (config (startup ''/srv/app'' [''SECRET_KEY'' \<mapsto> Some ''from-file'']
         [''SECRET_KEY'' \<mapsto> []])) \<noteq> []"
  by (simp add: startup_def load_dotenv_def Config_class_def environ_get_def)

text \<open>
  Claim C10, amended. When a variable is set in the process environment before startup,
  its setting is that value if the value is not empty and the literal default if it is
  empty; in both cases the value that the \<^verbatim>\<open>.env\<close> file gives for the variable is
  not used.
\<close>

theorem process_environment_precedence:
  "(env ''SECRET_KEY'' = Some v \<longrightarrow>
      SECRET_KEY (config (startup here vals env)) =
        (if v = [] then ''dev-key-please-change'' else v))
   \<and> (env ''DATABASE_URL'' = Some w \<longrightarrow>
      SQLALCHEMY_DATABASE_URI (config (startup here vals env)) =
        (if w = [] then ''postgresql://localhost/card_collector_db'' else w))"
proof -
  have "SECRET_KEY (config (startup here vals env)) =
        (if v = [] then ''dev-key-please-change'' else v)"
    if "env ''SECRET_KEY'' = Some v"
  proof -
    have "load_dotenv False vals env ''SECRET_KEY'' = Some v"
      using that by (rule load_dotenv_keeps)
    then show ?thesis
      by (simp add: config_startup Config_class_def environ_get_def)
  qed
  moreover have "SQLALCHEMY_DATABASE_URI (config (startup here vals env)) =
        (if w = [] then ''postgresql://localhost/card_collector_db'' else w)"
    if "env ''DATABASE_URL'' = Some w"
  proof -
    have "load_dotenv False vals env ''DATABASE_URL'' = Some w"
      using that by (rule load_dotenv_keeps)
    then show ?thesis
      by (simp add: config_startup Config_class_def environ_get_def)
  qed
  ultimately show ?thesis by blast
qed

theorem process_environment_precedence_witness:
  "SECRET_KEY (config (startup ''/srv/app''
       [''SECRET_KEY'' \<mapsto> Some ''from-file'', ''DATABASE_URL'' \<mapsto> Some ''sqlite:///file.db'']
       [''SECRET_KEY'' \<mapsto> ''abc123'', ''DATABASE_URL'' \<mapsto> ''postgresql://example/test'']))
     = ''abc123''
   \<and> SQLALCHEMY_DATABASE_URI (config (startup ''/srv/app''
       [''SECRET_KEY'' \<mapsto> Some ''from-file'', ''DATABASE_URL'' \<mapsto> Some ''sqlite:///file.db'']
       [''SECRET_KEY'' \<mapsto> ''abc123'', ''DATABASE_URL'' \<mapsto> ''postgresql://example/test'']))
     = ''postgresql://example/test''"
  using process_environment_precedence
    [of "[''SECRET_KEY'' \<mapsto> ''abc123'', ''DATABASE_URL'' \<mapsto> ''postgresql://example/test'']"
        "''abc123''" "''/srv/app''"
        "[''SECRET_KEY'' \<mapsto> Some ''from-file'', ''DATABASE_URL'' \<mapsto> Some ''sqlite:///file.db'']"
        "''postgresql://example/test''"]
  by simp

end
